theory Spec2Isabelle
  imports Main "HOL-Library.Word"
begin

unbundle bit_operations_syntax

section \<open>The STM32L4R5 random number generator peripheral\<close>

text \<open>
  A shallow embedding of \<^verbatim>\<open>hw/misc/stm32l4r5_rng.c\<close>: the register file, the read
  handler \<^verbatim>\<open>stm32l4r5_rng_read\<close> and the write handler \<^verbatim>\<open>stm32l4r5_rng_write\<close>.
  The handlers are plain C functions without loops, so each is one HOL definition
  whose branches follow the source's \<^verbatim>\<open>if\<close> and \<^verbatim>\<open>switch\<close> in order.
\<close>

subsection \<open>Types and constants\<close>

type_synonym hwaddr = "64 word"
type_synonym uint64_t = "64 word"
type_synonym uint32_t = "32 word"
type_synonym unsigned = "32 word"

text \<open>The anonymous enum of register indices.\<close>

definition RNG_CR :: nat where "RNG_CR = 0"
definition RNG_SR :: nat where "RNG_SR = 1"
definition RNG_DR :: nat where "RNG_DR = 2"

definition REG_TO_OFFSET :: "hwaddr \<Rightarrow> hwaddr" where
  "REG_TO_OFFSET reg = reg * 4"

definition OFFSET_TO_REG :: "hwaddr \<Rightarrow> hwaddr" where
  "OFFSET_TO_REG offset = offset div 4"

subsection \<open>State\<close>

text \<open>
  The diagnostics the handlers pass to \<^verbatim>\<open>qemu_log_mask(LOG_GUEST_ERROR, ...)\<close>, one
  constructor per call site, carrying the offset the message prints (the read handler's
  bounds check prints \<^verbatim>\<open>(uint32_t)offset\<close>).
\<close>

datatype diag =
    Read_out_of_bounds uint32_t
  | Read_no_valid_data
  | Read_invalid_offset hwaddr
  | Write_SR_read_only_bits hwaddr
  | Write_read_only_register hwaddr
  | Write_invalid_offset hwaddr

text \<open>
  Modelled from the spec: the header \<^verbatim>\<open>hw/misc/stm32l4r5_rng.h\<close> that declares
  \<^verbatim>\<open>STM32L4R5RNGState\<close> is not among the sources. The register file \<open>regs\<close> is an array
  of 32-bit registers indexed by register number; its length is not known, so it is a
  total function on indices, of which the handlers touch 0, 1 and 2 only.
\<close>

record STM32L4R5RNGState =
  regs :: "nat \<Rightarrow> uint32_t"

text \<open>
  The handlers also act outside the device: they call the system random source and write
  to the guest-error log. The state they run in extends the device state with both:
  \<open>entropy\<close> is the value the random source yields at its \<open>n\<close>-th call, \<open>draws\<close> counts
  the calls made so far, \<open>guest_log\<close> holds the diagnostics in the order they were logged.
\<close>

record machine = STM32L4R5RNGState +
  entropy :: "nat \<Rightarrow> uint64_t"
  draws :: nat
  guest_log :: "diag list"

definition qemu_log_mask :: "diag \<Rightarrow> machine \<Rightarrow> machine" where
  "qemu_log_mask d m = m\<lparr>guest_log := guest_log m @ [d]\<rparr>"

text \<open>
  Modelled from the spec: \<^verbatim>\<open>qemu_guest_getrandom\<close> is not among the sources. The call
  \<^verbatim>\<open>qemu_guest_getrandom(&value, sizeof(value), NULL)\<close> is one invocation of the system
  random source, which leaves its next eight bytes in \<^verbatim>\<open>value\<close>.
\<close>

definition qemu_guest_getrandom :: "machine \<Rightarrow> uint64_t \<times> machine" where
  "qemu_guest_getrandom m = (entropy m (draws m), m\<lparr>draws := Suc (draws m)\<rparr>)"

text \<open>
  Modelled from the spec: the device object is allocated by the object system, which is
  not among the sources; the register file is created with all registers zeroed.
\<close>

definition rng_reset :: "(nat \<Rightarrow> uint64_t) \<Rightarrow> machine" where
  "rng_reset src = \<lparr>regs = (\<lambda>_. 0), entropy = src, draws = 0, guest_log = []\<rparr>"

subsection \<open>The read handler\<close>

text \<open>
  \<^verbatim>\<open>STM32L4R5_RNG_REGS_SIZE\<close> is declared in the missing header, so the window's byte
  size is the parameter \<open>REGS_SIZE\<close>. The result pairs the returned \<^verbatim>\<open>uint64_t\<close> with
  the state after the call. The access size is received and never looked at.
\<close>

definition stm32l4r5_rng_read ::
  "hwaddr \<Rightarrow> machine \<Rightarrow> hwaddr \<Rightarrow> unsigned \<Rightarrow> uint64_t \<times> machine" where
  "stm32l4r5_rng_read REGS_SIZE s offset sz =
    (if offset \<ge> REGS_SIZE then
       (0, qemu_log_mask (Read_out_of_bounds (ucast offset)) s)
     else if OFFSET_TO_REG offset = of_nat RNG_CR then
       (ucast (regs s RNG_CR), s)
     else if OFFSET_TO_REG offset = of_nat RNG_SR then
       (ucast (regs s RNG_SR), s)
     else if OFFSET_TO_REG offset = of_nat RNG_DR then
       (if regs s RNG_SR AND 0x1 \<noteq> 0 then qemu_guest_getrandom s
        else (0, qemu_log_mask Read_no_valid_data s))
     else
       (0, qemu_log_mask (Read_invalid_offset offset) s))"

subsection \<open>The write handler\<close>

text \<open>
  The source switches on the byte offset itself (\<^verbatim>\<open>switch (offset)\<close>) against the
  register indices 0, 1 and 2; there is no bounds check. The value is a \<^verbatim>\<open>uint64_t\<close>,
  truncated when stored into a 32-bit register. The \<^verbatim>\<open>||\<close> chain of the status case
  is evaluated left to right, as C does.
\<close>

definition stm32l4r5_rng_write ::
  "machine \<Rightarrow> hwaddr \<Rightarrow> uint64_t \<Rightarrow> unsigned \<Rightarrow> machine" where
  "stm32l4r5_rng_write s offset val sz =
    (if offset = of_nat RNG_CR then
       (let s1 = s\<lparr>regs := (regs s)(RNG_CR := ucast val)\<rparr> in
        if val AND 0x4 \<noteq> 0
        then s1\<lparr>regs := (regs s1)(RNG_SR := regs s1 RNG_SR OR 0x1)\<rparr>
        else s1\<lparr>regs := (regs s1)(RNG_SR := regs s1 RNG_SR AND NOT 0x1)\<rparr>)
     else if offset = of_nat RNG_SR then
       (let s1 = (if val AND 0x1 \<noteq> 0 then qemu_log_mask (Write_SR_read_only_bits offset) s
                  else if val AND 0x2 \<noteq> 0 then qemu_log_mask (Write_SR_read_only_bits offset) s
                  else if val AND 0x4 \<noteq> 0 then qemu_log_mask (Write_SR_read_only_bits offset) s
                  else s);
            s2 = (if val AND 0x40 = 0
                  then s1\<lparr>regs := (regs s1)(RNG_SR := regs s1 RNG_SR AND NOT 0x40)\<rparr>
                  else s1);
            s3 = (if val AND 0x20 = 0
                  then s2\<lparr>regs := (regs s2)(RNG_SR := regs s2 RNG_SR AND NOT 0x20)\<rparr>
                  else s2)
        in s3)
     else if offset = of_nat RNG_DR then
       qemu_log_mask (Write_read_only_register offset) s
     else
       qemu_log_mask (Write_invalid_offset offset) s)"

subsection \<open>Sequences of bus operations\<close>

datatype bus_op =
    Bus_read hwaddr unsigned
  | Bus_write hwaddr uint64_t unsigned

fun bus_step :: "hwaddr \<Rightarrow> machine \<Rightarrow> bus_op \<Rightarrow> machine" where
  "bus_step REGS_SIZE s (Bus_read offset sz) = snd (stm32l4r5_rng_read REGS_SIZE s offset sz)"
| "bus_step REGS_SIZE s (Bus_write offset val sz) = stm32l4r5_rng_write s offset val sz"

fun run :: "hwaddr \<Rightarrow> machine \<Rightarrow> bus_op list \<Rightarrow> machine" where
  "run REGS_SIZE s [] = s"
| "run REGS_SIZE s (b # bs) = run REGS_SIZE (bus_step REGS_SIZE s b) bs"

text \<open>
  The most recent value written at the control register's offset in a sequence of bus
  operations, if there is one.
\<close>

fun last_CR_write :: "bus_op list \<Rightarrow> uint64_t option" where
  "last_CR_write [] = None"
| "last_CR_write (b # bs) =
     (case last_CR_write bs of
        Some v \<Rightarrow> Some v
      | None \<Rightarrow>
          (case b of
             Bus_write offset val sz \<Rightarrow> if offset = 0 then Some val else None
           | Bus_read offset sz \<Rightarrow> None))"

subsection \<open>The declared access constraints\<close>

text \<open>
  The \<^verbatim>\<open>.valid\<close> fields that \<^verbatim>\<open>stm32l4r5_rng_ops\<close> sets.
\<close>

record access_constraints =
  min_access_size :: nat
  max_access_size :: nat
  unaligned :: bool

definition stm32l4r5_rng_ops :: access_constraints where
  "stm32l4r5_rng_ops = \<lparr>min_access_size = 4, max_access_size = 4, unaligned = False\<rparr>"

text \<open>
  Modelled from the spec: the bus dispatcher that enforces the declared constraints is not
  among the sources. An access is delivered to the handlers when its size lies in the
  declared range and, unless unaligned access is declared, its offset is a multiple of
  its size.
\<close>

definition bus_delivers :: "access_constraints \<Rightarrow> hwaddr \<Rightarrow> unsigned \<Rightarrow> bool" where
  "bus_delivers c offset sz =
     (min_access_size c \<le> unat sz \<and> unat sz \<le> max_access_size c \<and>
      (unaligned c \<or> unat offset mod unat sz = 0))"

section \<open>Lemmas about the handlers\<close>

subsection \<open>Bits of machine words\<close>

lemmas reg_index_defs = RNG_CR_def RNG_SR_def RNG_DR_def

lemma and_1_neq_0_iff: "(w AND 0x1 \<noteq> 0) = bit w 0" for w :: "'a::len word"
  by (simp add: and_one_eq bit_0 mod_2_eq_odd)

lemma and_exp_eq_0_word:
  "(w AND 0x4 = 0) = (\<not> bit w 2)" "(w AND 0x20 = 0) = (\<not> bit w 5)"
  "(w AND 0x40 = 0) = (\<not> bit w 6)" for w :: "'a::len word"
  using and_exp_eq_0_iff_not_bit [of w 2] and_exp_eq_0_iff_not_bit [of w 5]
    and_exp_eq_0_iff_not_bit [of w 6] by simp_all

lemma bit_and_not_exp:
  "bit (w AND NOT (2 ^ k)) n = (bit w n \<and> n \<noteq> k)" for w :: "'a::len word"
  by (auto simp add: bit_and_iff bit_not_iff bit_exp_iff dest: bit_imp_le_length)

lemma bit_clear_0: "bit (w AND NOT 0x1) n = (bit w n \<and> n \<noteq> 0)" for w :: uint32_t
  using bit_and_not_exp [of w 0 n] by simp

lemma bit_clear_5: "bit (w AND NOT 0x20) n = (bit w n \<and> n \<noteq> 5)" for w :: uint32_t
  using bit_and_not_exp [of w 5 n] by simp

lemma bit_clear_6: "bit (w AND NOT 0x40) n = (bit w n \<and> n \<noteq> 6)" for w :: uint32_t
  using bit_and_not_exp [of w 6 n] by simp

lemma bit_set_0: "bit (w OR 0x1) n = (bit w n \<or> n = 0)" for w :: uint32_t
  by (auto simp add: bit_or_iff bit_1_iff)

lemma ucast_ucast_4_bytes:
  fixes v :: uint64_t
  assumes "v \<le> 0xFFFFFFFF"
  shows "(ucast (ucast v :: uint32_t) :: uint64_t) = v"
proof -
  from assms have "v < 2 ^ 32"
    by (simp add: word_less_nat_alt word_le_nat_alt)
  then have "v AND mask 32 = v"
    by (rule less_mask_eq)
  moreover have "(ucast (ucast v :: uint32_t) :: uint64_t) = v AND mask 32"
    by (rule bit_word_eqI) (auto simp add: bit_simps)
  ultimately show ?thesis by simp
qed

subsection \<open>What the handlers do to each part of the state\<close>

lemma regs_qemu_log_mask [simp]: "regs (qemu_log_mask d s) = regs s"
  by (simp add: qemu_log_mask_def)

lemma draws_qemu_log_mask [simp]: "draws (qemu_log_mask d s) = draws s"
  by (simp add: qemu_log_mask_def)

lemma entropy_qemu_log_mask [simp]: "entropy (qemu_log_mask d s) = entropy s"
  by (simp add: qemu_log_mask_def)

lemma read_regs: "regs (snd (stm32l4r5_rng_read REGS_SIZE s offset sz)) = regs s"
  by (simp add: stm32l4r5_rng_read_def qemu_guest_getrandom_def)

lemma write_at_0_regs:
  "regs (stm32l4r5_rng_write s 0 val sz) =
     (regs s)(RNG_CR := ucast val,
              RNG_SR := (if bit val 2 then regs s RNG_SR OR 0x1 else regs s RNG_SR AND NOT 0x1))"
  by (simp add: stm32l4r5_rng_write_def reg_index_defs Let_def and_exp_eq_0_word)

lemma write_at_1_regs:
  "regs (stm32l4r5_rng_write s 1 val sz) =
     (regs s)(RNG_SR :=
        (if bit val 5 then (if bit val 6 then regs s RNG_SR else regs s RNG_SR AND NOT 0x40)
         else (if bit val 6 then regs s RNG_SR else regs s RNG_SR AND NOT 0x40) AND NOT 0x20))"
  by (auto simp add: stm32l4r5_rng_write_def reg_index_defs Let_def and_exp_eq_0_word)

lemma write_elsewhere_regs:
  "offset \<noteq> 0 \<Longrightarrow> offset \<noteq> 1 \<Longrightarrow> regs (stm32l4r5_rng_write s offset val sz) = regs s"
  by (simp add: stm32l4r5_rng_write_def reg_index_defs)

lemma write_draws: "draws (stm32l4r5_rng_write s offset val sz) = draws s"
  by (simp add: stm32l4r5_rng_write_def Let_def)

lemma write_entropy: "entropy (stm32l4r5_rng_write s offset val sz) = entropy s"
  by (simp add: stm32l4r5_rng_write_def Let_def)

lemma write_at_0_CR: "regs (stm32l4r5_rng_write s 0 val sz) RNG_CR = ucast val"
  by (simp add: write_at_0_regs reg_index_defs)

lemma write_at_0_SR_bit:
  "bit (regs (stm32l4r5_rng_write s 0 val sz) RNG_SR) n =
     (if n = 0 then bit val 2 else bit (regs s RNG_SR) n)"
  by (simp add: write_at_0_regs bit_clear_0 [simplified] bit_set_0)

lemma write_at_1_SR_bit:
  "bit (regs (stm32l4r5_rng_write s 1 val sz) RNG_SR) n =
     (bit (regs s RNG_SR) n \<and> (n = 5 \<longrightarrow> bit val 5) \<and> (n = 6 \<longrightarrow> bit val 6))"
  by (auto simp add: write_at_1_regs bit_clear_5 [simplified] bit_clear_6 [simplified])

lemma write_at_1_other_reg:
  "i \<noteq> RNG_SR \<Longrightarrow> regs (stm32l4r5_rng_write s 1 val sz) i = regs s i"
  by (simp add: write_at_1_regs)

lemma write_not_0_CR:
  "offset \<noteq> 0 \<Longrightarrow> regs (stm32l4r5_rng_write s offset val sz) RNG_CR = regs s RNG_CR"
  by (cases "offset = 1") (simp_all add: write_elsewhere_regs write_at_1_other_reg reg_index_defs)

lemma write_not_0_SR_bit_0:
  "offset \<noteq> 0 \<Longrightarrow>
   bit (regs (stm32l4r5_rng_write s offset val sz) RNG_SR) 0 = bit (regs s RNG_SR) 0"
  by (cases "offset = 1") (simp_all add: write_elsewhere_regs write_at_1_SR_bit)

text \<open>The read handler's cases, by the offsets that select them.\<close>

lemma read_out_of_bounds:
  "REGS_SIZE \<le> offset \<Longrightarrow>
   stm32l4r5_rng_read REGS_SIZE s offset sz =
     (0, qemu_log_mask (Read_out_of_bounds (ucast offset)) s)"
  by (simp add: stm32l4r5_rng_read_def)

lemma read_at_4:
  "4 < REGS_SIZE \<Longrightarrow> stm32l4r5_rng_read REGS_SIZE s 4 sz = (ucast (regs s RNG_SR), s)"
  by (simp add: stm32l4r5_rng_read_def OFFSET_TO_REG_def reg_index_defs not_le [symmetric])

lemma read_at_8:
  "8 < REGS_SIZE \<Longrightarrow>
   stm32l4r5_rng_read REGS_SIZE s 8 sz =
     (if bit (regs s RNG_SR) 0 then qemu_guest_getrandom s
      else (0, qemu_log_mask Read_no_valid_data s))"
  by (simp add: stm32l4r5_rng_read_def OFFSET_TO_REG_def reg_index_defs and_1_neq_0_iff
      not_le [symmetric])

lemma read_at_8_not_ready:
  "\<not> bit (regs s RNG_SR) 0 \<Longrightarrow>
   fst (stm32l4r5_rng_read REGS_SIZE s 8 sz) = 0 \<and>
   draws (snd (stm32l4r5_rng_read REGS_SIZE s 8 sz)) = draws s"
  by (simp add: stm32l4r5_rng_read_def OFFSET_TO_REG_def reg_index_defs and_1_neq_0_iff)

subsection \<open>Invariants of sequences of bus operations\<close>

text \<open>
  One step changes SR bit 0 and CR bit 2 only if it is a write at offset 0, and then both
  become bit 2 of the written value.
\<close>

lemma bus_step_SR_bit_0:
  "bit (regs (bus_step REGS_SIZE s b) RNG_SR) 0 =
     (case last_CR_write [b] of None \<Rightarrow> bit (regs s RNG_SR) 0 | Some v \<Rightarrow> bit v 2)"
  by (cases b) (simp_all add: read_regs write_at_0_SR_bit write_not_0_SR_bit_0)

lemma bus_step_CR_bit_2:
  "bit (regs (bus_step REGS_SIZE s b) RNG_CR) 2 =
     (case last_CR_write [b] of None \<Rightarrow> bit (regs s RNG_CR) 2 | Some v \<Rightarrow> bit v 2)"
  by (cases b) (simp_all add: read_regs write_at_0_CR write_not_0_CR bit_simps)

lemma last_CR_write_Cons:
  "last_CR_write (b # bs) =
     (case last_CR_write bs of Some v \<Rightarrow> Some v | None \<Rightarrow> last_CR_write [b])"
  by (simp split: option.splits)

lemma run_SR_bit_0:
  "bit (regs (run REGS_SIZE s bs) RNG_SR) 0 =
     (case last_CR_write bs of None \<Rightarrow> bit (regs s RNG_SR) 0 | Some v \<Rightarrow> bit v 2)"
proof (induction bs arbitrary: s)
  case Nil
  show ?case by simp
next
  case (Cons b bs)
  have "bit (regs (run REGS_SIZE s (b # bs)) RNG_SR) 0 =
        (case last_CR_write bs of
           None \<Rightarrow> bit (regs (bus_step REGS_SIZE s b) RNG_SR) 0 | Some v \<Rightarrow> bit v 2)"
    by (simp add: Cons.IH)
  also have "\<dots> = (case last_CR_write (b # bs) of
                     None \<Rightarrow> bit (regs s RNG_SR) 0 | Some v \<Rightarrow> bit v 2)"
    unfolding last_CR_write_Cons [of b bs] bus_step_SR_bit_0
    by (simp split: option.splits)
  finally show ?case .
qed

lemma run_CR_bit_2:
  "bit (regs (run REGS_SIZE s bs) RNG_CR) 2 =
     (case last_CR_write bs of None \<Rightarrow> bit (regs s RNG_CR) 2 | Some v \<Rightarrow> bit v 2)"
proof (induction bs arbitrary: s)
  case Nil
  show ?case by simp
next
  case (Cons b bs)
  have "bit (regs (run REGS_SIZE s (b # bs)) RNG_CR) 2 =
        (case last_CR_write bs of
           None \<Rightarrow> bit (regs (bus_step REGS_SIZE s b) RNG_CR) 2 | Some v \<Rightarrow> bit v 2)"
    by (simp add: Cons.IH)
  also have "\<dots> = (case last_CR_write (b # bs) of
                     None \<Rightarrow> bit (regs s RNG_CR) 2 | Some v \<Rightarrow> bit v 2)"
    unfolding last_CR_write_Cons [of b bs] bus_step_CR_bit_2
    by (simp split: option.splits)
  finally show ?case .
qed

text \<open>The status register stays 0 or 1 once it is 0 or 1.\<close>

lemma write_SR_0_or_1:
  assumes "regs s RNG_SR = 0 \<or> regs s RNG_SR = 1"
  shows "regs (stm32l4r5_rng_write s offset val sz) RNG_SR = 0 \<or>
         regs (stm32l4r5_rng_write s offset val sz) RNG_SR = 1"
proof -
  consider "offset = 0" | "offset = 1" | "offset \<noteq> 0" "offset \<noteq> 1" by blast
  then show ?thesis
  proof cases
    case 1
    with assms show ?thesis by (auto simp add: write_at_0_regs)
  next
    case 2
    with assms show ?thesis by (auto simp add: write_at_1_regs)
  next
    case 3
    with assms show ?thesis by (simp add: write_elsewhere_regs)
  qed
qed

lemma bus_step_SR_0_or_1:
  "regs s RNG_SR = 0 \<or> regs s RNG_SR = 1 \<Longrightarrow>
   regs (bus_step REGS_SIZE s b) RNG_SR = 0 \<or> regs (bus_step REGS_SIZE s b) RNG_SR = 1"
  by (cases b) (simp_all add: read_regs write_SR_0_or_1)

lemma run_SR_0_or_1:
  "regs s RNG_SR = 0 \<or> regs s RNG_SR = 1 \<Longrightarrow>
   regs (run REGS_SIZE s bs) RNG_SR = 0 \<or> regs (run REGS_SIZE s bs) RNG_SR = 1"
proof (induction bs arbitrary: s)
  case Nil
  then show ?case by simp
next
  case (Cons b bs)
  from Cons.prems have "regs (bus_step REGS_SIZE s b) RNG_SR = 0 \<or>
                        regs (bus_step REGS_SIZE s b) RNG_SR = 1"
    by (rule bus_step_SR_0_or_1)
  then show ?case
    using Cons.IH [of "bus_step REGS_SIZE s b"] by simp
qed

subsection \<open>The write handler's cases and the bus\<close>

lemma aligned_iff_unat: "(offset mod 4 = 0) = (4 dvd unat offset)" for offset :: hwaddr
proof -
  have "(offset mod 4 = 0) = (4 udvd offset)"
  proof
    assume "offset mod 4 = 0"
    then show "4 udvd offset" by (rule mod_eq_0_imp_udvd)
  next
    assume "4 udvd offset"
    then show "offset mod 4 = 0" by (rule udvd_imp_mod_eq_0)
  qed
  also have "\<dots> = (4 dvd unat offset)"
    by (simp add: udvd_iff_dvd)
  finally show ?thesis .
qed


lemma aligned_not_1_2:
  fixes offset :: hwaddr
  assumes "offset mod 4 = 0"
  shows "offset \<noteq> 1" and "offset \<noteq> 2"
proof -
  from assms have d: "4 dvd unat offset"
    by (simp only: aligned_iff_unat)
  show "offset \<noteq> 1"
  proof
    assume "offset = 1"
    with d have "(4::nat) dvd 1" by simp
    then show False by simp
  qed
  show "offset \<noteq> 2"
  proof
    assume "offset = 2"
    with d have "(4::nat) dvd 2" by simp
    then show False by simp
  qed
qed

lemma bus_delivers_rng_iff:
  "bus_delivers stm32l4r5_rng_ops offset sz = (sz = 4 \<and> offset mod 4 = 0)"
proof -
  have "(unat sz = 4) = (sz = 4)"
    by (simp add: word_unat_eq_iff)
  moreover have "(unat offset mod 4 = 0) = (offset mod 4 = 0)"
    by (simp only: aligned_iff_unat mod_eq_0_iff_dvd)
  moreover have "bus_delivers stm32l4r5_rng_ops offset sz =
                 (unat sz = 4 \<and> unat offset mod 4 = 0)"
    by (auto simp add: bus_delivers_def stm32l4r5_rng_ops_def)
  ultimately show ?thesis
    by (simp only:)
qed

lemma write_log_read_only_iff:
  "(guest_log (stm32l4r5_rng_write s offset val sz) =
      guest_log s @ [Write_read_only_register offset]) = (offset = 2)"
  by (simp add: stm32l4r5_rng_write_def reg_index_defs Let_def qemu_log_mask_def)

lemma write_default_case:
  "offset \<noteq> 0 \<Longrightarrow> offset \<noteq> 1 \<Longrightarrow> offset \<noteq> 2 \<Longrightarrow>
   stm32l4r5_rng_write s offset val sz = qemu_log_mask (Write_invalid_offset offset) s"
  by (simp add: stm32l4r5_rng_write_def reg_index_defs)

lemma write_at_0_can_change:
  "regs (stm32l4r5_rng_write (rng_reset src) 0x0 0x4 4) \<noteq> regs (rng_reset src)"
proof
  assume "regs (stm32l4r5_rng_write (rng_reset src) 0x0 0x4 4) = regs (rng_reset src)"
  then have "regs (stm32l4r5_rng_write (rng_reset src) 0x0 0x4 4) RNG_CR =
             regs (rng_reset src) RNG_CR"
    by (rule fun_cong)
  then show False
    by (simp add: write_at_0_CR rng_reset_def)
qed

lemma write_aligned_regs:
  assumes "offset mod 4 = 0" and "offset \<noteq> 0"
  shows "regs (stm32l4r5_rng_write s offset val sz) = regs s"
  using assms(2) aligned_not_1_2 (1) [OF assms(1)] by (rule write_elsewhere_regs)

lemma bus_never_delivers_1_2:
  "\<not> bus_delivers stm32l4r5_rng_ops 1 sz" "\<not> bus_delivers stm32l4r5_rng_ops 2 sz"
proof -
  show "\<not> bus_delivers stm32l4r5_rng_ops 1 sz"
  proof
    assume "bus_delivers stm32l4r5_rng_ops 1 sz"
    then have "(1 :: hwaddr) mod 4 = 0"
      by (simp only: bus_delivers_rng_iff)
    then have "(1 :: hwaddr) \<noteq> 1"
      by (rule aligned_not_1_2)
    then show False by simp
  qed
  show "\<not> bus_delivers stm32l4r5_rng_ops 2 sz"
  proof
    assume "bus_delivers stm32l4r5_rng_ops 2 sz"
    then have "(2 :: hwaddr) mod 4 = 0"
      by (simp only: bus_delivers_rng_iff)
    then have "(2 :: hwaddr) \<noteq> 2"
      by (rule aligned_not_1_2)
    then show False by simp
  qed
qed

section \<open>The properties of the specification\<close>

text \<open>
  C1. The specification has a write at byte offset 0x4 clear stored SR bit 6 when bit 6
  of the written value is 0. The write handler switches on the byte offset, so offset 0x4 is
  none of its cases: with SR holding 0x40, writing 0 at offset 0x4 leaves SR at 0x40, bit
  6 still set. The same write at byte offset 1, where the status case is, clears it.
\<close>

theorem C1_write_at_SR_offset_keeps_sticky_bit:
  "regs (stm32l4r5_rng_write ((rng_reset (\<lambda>n. 0))\<lparr>regs := (\<lambda>i. 0)(RNG_SR := 0x40)\<rparr>) 0x4 0x0 4)
     RNG_SR = 0x40 \<and>
   bit (regs (stm32l4r5_rng_write ((rng_reset (\<lambda>n. 0))\<lparr>regs := (\<lambda>i. 0)(RNG_SR := 0x40)\<rparr>)
     0x4 0x0 4) RNG_SR) 6 \<and>
   regs (stm32l4r5_rng_write ((rng_reset (\<lambda>n. 0))\<lparr>regs := (\<lambda>i. 0)(RNG_SR := 0x40)\<rparr>) 0x1 0x0 4)
     RNG_SR = 0"
  by (simp add: stm32l4r5_rng_write_def reg_index_defs rng_reset_def Let_def)

text \<open>
  C2. After a 4-byte write at offset 0x0, stored CR is the written value, stored SR bit 0
  is bit 2 of the written value, and a read at offset 0x4 (inside the window) returns
  the stored SR, with that bit 0.
\<close>

theorem C2_enable_ready_coupling:
  assumes "val \<le> 0xFFFFFFFF" and "4 < REGS_SIZE"
  shows "ucast (regs (stm32l4r5_rng_write s 0x0 val 4) RNG_CR) = val \<and>
         bit (regs (stm32l4r5_rng_write s 0x0 val 4) RNG_SR) 0 = bit val 2 \<and>
         regs (stm32l4r5_rng_write s 0x0 val 4) RNG_SR AND 0x1 = (if bit val 2 then 1 else 0) \<and>
         fst (stm32l4r5_rng_read REGS_SIZE (stm32l4r5_rng_write s 0x0 val 4) 0x4 4) =
           ucast (regs (stm32l4r5_rng_write s 0x0 val 4) RNG_SR) \<and>
         bit (fst (stm32l4r5_rng_read REGS_SIZE (stm32l4r5_rng_write s 0x0 val 4) 0x4 4)) 0 =
           bit val 2"
proof -
  let ?s' = "stm32l4r5_rng_write s 0x0 val 4"
  have cr: "ucast (regs ?s' RNG_CR) = val"
    using assms(1) by (simp add: write_at_0_CR ucast_ucast_4_bytes)
  have sr: "bit (regs ?s' RNG_SR) 0 = bit val 2"
    by (simp add: write_at_0_SR_bit)
  have drdy: "regs ?s' RNG_SR AND 0x1 = (if bit val 2 then 1 else 0)"
    using sr by (simp add: and_one_eq mod_2_eq_odd bit_0)
  have rd: "fst (stm32l4r5_rng_read REGS_SIZE ?s' 0x4 4) = ucast (regs ?s' RNG_SR)"
    using assms(2) by (simp add: read_at_4)
  have "bit (ucast (regs ?s' RNG_SR) :: uint64_t) 0 = bit (regs ?s' RNG_SR) 0"
    by (simp add: bit_simps)
  with cr sr drdy rd show ?thesis by simp
qed

theorem C2_enable_ready_coupling_witness:
  "ucast (regs (stm32l4r5_rng_write (rng_reset (\<lambda>n. 0)) 0x0 0x4 4) RNG_CR) = (0x4 :: uint64_t) \<and>
   bit (regs (stm32l4r5_rng_write (rng_reset (\<lambda>n. 0)) 0x0 0x4 4) RNG_SR) 0 \<and>
   fst (stm32l4r5_rng_read 0xC (stm32l4r5_rng_write (rng_reset (\<lambda>n. 0)) 0x0 0x4 4) 0x4 4) = 1"
  using C2_enable_ready_coupling [of "0x4" "0xC" "rng_reset (\<lambda>n. 0)"]
  by (simp add: write_at_0_regs rng_reset_def reg_index_defs)

text \<open>
  C3. A read at offset 0x8 while stored SR bit 0 is clear returns 0 and leaves the count
  of random-source calls as it was. While SR bit 0 is set (and offset 0x8 is inside the
  window) it calls the random source once and returns the value that call produced.
\<close>

theorem C3_gated_data_read:
  "(\<not> bit (regs s RNG_SR) 0 \<longrightarrow>
      fst (stm32l4r5_rng_read REGS_SIZE s 0x8 sz) = 0 \<and>
      draws (snd (stm32l4r5_rng_read REGS_SIZE s 0x8 sz)) = draws s) \<and>
   (bit (regs s RNG_SR) 0 \<and> 8 < REGS_SIZE \<longrightarrow>
      fst (stm32l4r5_rng_read REGS_SIZE s 0x8 sz) = entropy s (draws s) \<and>
      draws (snd (stm32l4r5_rng_read REGS_SIZE s 0x8 sz)) = Suc (draws s))"
  by (simp add: read_at_8_not_ready read_at_8 qemu_guest_getrandom_def)

theorem C3_gated_data_read_witness:
  "fst (stm32l4r5_rng_read 0xC (rng_reset (\<lambda>n. 0xABCD)) 0x8 4) = 0 \<and>
   draws (snd (stm32l4r5_rng_read 0xC (rng_reset (\<lambda>n. 0xABCD)) 0x8 4)) = 0 \<and>
   fst (stm32l4r5_rng_read 0xC ((rng_reset (\<lambda>n. 0xABCD))\<lparr>regs := (\<lambda>i. 0)(RNG_SR := 0x1)\<rparr>) 0x8 4)
     = 0xABCD \<and>
   draws (snd (stm32l4r5_rng_read 0xC
     ((rng_reset (\<lambda>n. 0xABCD))\<lparr>regs := (\<lambda>i. 0)(RNG_SR := 0x1)\<rparr>) 0x8 4)) = 1"
  using C3_gated_data_read [of "rng_reset (\<lambda>n. 0xABCD)" "0xC" 4]
    C3_gated_data_read [of "(rng_reset (\<lambda>n. 0xABCD))\<lparr>regs := (\<lambda>i. 0)(RNG_SR := 0x1)\<rparr>" "0xC" 4]
  by (simp add: rng_reset_def)

text \<open>
  C4. In every state reached from the zeroed register file by a sequence of reads and
  writes, stored SR bit 0 is set exactly when stored CR bit 2 is, which is exactly when
  the most recent write at offset 0x0 exists and had bit 2 set. No read changes a
  register, and a write at any other offset changes neither CR nor SR bit 0.
\<close>

theorem C4_DRDY_iff_enable:
  "bit (regs (run REGS_SIZE (rng_reset src) bs) RNG_SR) 0 =
     bit (regs (run REGS_SIZE (rng_reset src) bs) RNG_CR) 2 \<and>
   bit (regs (run REGS_SIZE (rng_reset src) bs) RNG_SR) 0 =
     (case last_CR_write bs of None \<Rightarrow> False | Some v \<Rightarrow> bit v 2) \<and>
   regs (snd (stm32l4r5_rng_read REGS_SIZE s offset sz)) = regs s \<and>
   (offset \<noteq> 0 \<longrightarrow>
      regs (stm32l4r5_rng_write s offset val sz) RNG_CR = regs s RNG_CR \<and>
      bit (regs (stm32l4r5_rng_write s offset val sz) RNG_SR) 0 = bit (regs s RNG_SR) 0)"
proof -
  have init: "\<not> bit (regs (rng_reset src) RNG_SR) 0" "\<not> bit (regs (rng_reset src) RNG_CR) 2"
    by (simp_all add: rng_reset_def)
  have sr: "bit (regs (run REGS_SIZE (rng_reset src) bs) RNG_SR) 0 =
            (case last_CR_write bs of None \<Rightarrow> False | Some v \<Rightarrow> bit v 2)"
    using init(1) by (simp add: run_SR_bit_0 split: option.splits)
  have cr: "bit (regs (run REGS_SIZE (rng_reset src) bs) RNG_CR) 2 =
            (case last_CR_write bs of None \<Rightarrow> False | Some v \<Rightarrow> bit v 2)"
    using init(2) by (simp add: run_CR_bit_2 split: option.splits)
  from sr cr show ?thesis
    by (simp add: read_regs write_not_0_CR write_not_0_SR_bit_0)
qed

theorem C4_DRDY_iff_enable_witness:
  "bit (regs (run 0xC (rng_reset (\<lambda>n. 0))
       [Bus_write 0x0 0x4 4, Bus_read 0x8 4, Bus_write 0x4 0x0 4]) RNG_SR) 0 \<and>
   bit (regs (run 0xC (rng_reset (\<lambda>n. 0))
       [Bus_write 0x0 0x4 4, Bus_read 0x8 4, Bus_write 0x4 0x0 4]) RNG_CR) 2 \<and>
   regs (stm32l4r5_rng_write (rng_reset (\<lambda>n. 0)) 0x4 0x4 4) RNG_CR = 0 \<and>
   \<not> bit (regs (stm32l4r5_rng_write (rng_reset (\<lambda>n. 0)) 0x4 0x4 4) RNG_SR) 0"
  using C4_DRDY_iff_enable [of "0xC" "\<lambda>n. 0"
      "[Bus_write 0x0 0x4 4, Bus_read 0x8 4, Bus_write 0x4 0x0 4]" "rng_reset (\<lambda>n. 0)" "0x4" 4 "0x4"]
  by (auto simp add: rng_reset_def)

text \<open>
  C5. At an offset not below the window's byte size, a read returns 0 and changes no
  register, and a write changes no register (the window being at least two bytes, so
  that the offset is none of the write handler's cases). Both handlers are total
  functions with no error result: nothing is propagated to the caller.
\<close>

theorem C5_out_of_bounds:
  assumes "REGS_SIZE \<le> offset" and "2 \<le> REGS_SIZE"
  shows "fst (stm32l4r5_rng_read REGS_SIZE s offset sz) = 0 \<and>
         regs (snd (stm32l4r5_rng_read REGS_SIZE s offset sz)) = regs s \<and>
         regs (stm32l4r5_rng_write s offset val sz) = regs s"
proof -
  from assms have "2 \<le> offset" by simp
  then have "offset \<noteq> 0" and "offset \<noteq> 1"
    by (auto simp add: word_le_nat_alt)
  then have "regs (stm32l4r5_rng_write s offset val sz) = regs s"
    by (rule write_elsewhere_regs)
  with assms(1) show ?thesis
    by (simp add: read_out_of_bounds)
qed

theorem C5_out_of_bounds_witness:
  "fst (stm32l4r5_rng_read 0xC ((rng_reset (\<lambda>n. 0))\<lparr>regs := (\<lambda>i. 0x61)\<rparr>) 0xC 4) = 0 \<and>
   regs (stm32l4r5_rng_write ((rng_reset (\<lambda>n. 0))\<lparr>regs := (\<lambda>i. 0x61)\<rparr>) 0xC 0x4 4) =
     (\<lambda>i. 0x61)"
  using C5_out_of_bounds [of "0xC" "0xC" "(rng_reset (\<lambda>n. 0))\<lparr>regs := (\<lambda>i. 0x61)\<rparr>" 4 "0x4"]
  by simp

text \<open>
  C6. A write at offset 0x8 changes nothing but the diagnostic log: the registers, the
  random source and its call count are as before, whatever the value.
\<close>

theorem C6_write_at_DR_offset_is_no_op:
  "regs (stm32l4r5_rng_write s 0x8 val sz) = regs s \<and>
   (stm32l4r5_rng_write s 0x8 val sz)\<lparr>guest_log := guest_log s\<rparr> = s"
  by (simp add: stm32l4r5_rng_write_def reg_index_defs qemu_log_mask_def)

text \<open>
  C7. The scenario, from the zeroed register file and with offset 0x8 inside the window:
  write 0x4 at 0x0; the read at 0x4 returns 0x1; the two reads at 0x8 return the random
  source's first and second values, which makes two calls; write 0x0 at 0x0; the read at
  0x4 returns 0x0; the read at 0x8 returns 0 and the call count is still two.
\<close>

theorem C7_scenario:
  assumes "8 < REGS_SIZE"
  shows "(let s0 = rng_reset src;
              s1 = stm32l4r5_rng_write s0 0x0 0x4 4;
              (sr1, s2) = stm32l4r5_rng_read REGS_SIZE s1 0x4 4;
              (dr1, s3) = stm32l4r5_rng_read REGS_SIZE s2 0x8 4;
              (dr2, s4) = stm32l4r5_rng_read REGS_SIZE s3 0x8 4;
              s5 = stm32l4r5_rng_write s4 0x0 0x0 4;
              (sr2, s6) = stm32l4r5_rng_read REGS_SIZE s5 0x4 4;
              (dr3, s7) = stm32l4r5_rng_read REGS_SIZE s6 0x8 4
          in sr1 = 0x1 \<and> dr1 = src 0 \<and> draws s3 = 1 \<and> dr2 = src 1 \<and> draws s4 = 2 \<and>
             sr2 = 0x0 \<and> dr3 = 0 \<and> draws s7 = 2)"
proof -
  have in4: "4 < REGS_SIZE"
    by (rule order.strict_trans [OF _ assms]) simp
  define s1 where "s1 = stm32l4r5_rng_write (rng_reset src) 0x0 0x4 4"
  have s1: "regs s1 RNG_SR = 1" "draws s1 = 0" "entropy s1 = src"
    by (simp_all add: s1_def write_at_0_regs write_draws write_entropy rng_reset_def)
  define s3 where "s3 = snd (qemu_guest_getrandom s1)"
  define s4 where "s4 = snd (qemu_guest_getrandom s3)"
  have s3: "regs s3 = regs s1" "draws s3 = 1" "entropy s3 = src"
    by (simp_all add: s3_def qemu_guest_getrandom_def s1)
  have s4: "regs s4 = regs s3" "draws s4 = 2" "entropy s4 = src"
    by (simp_all add: s4_def qemu_guest_getrandom_def s3)
  define s5 where "s5 = stm32l4r5_rng_write s4 0x0 0x0 4"
  have s5: "regs s5 RNG_SR = 0" "draws s5 = 2"
    by (simp_all add: s5_def write_at_0_regs write_draws s4 s3 s1)
  have r1: "stm32l4r5_rng_read REGS_SIZE s1 0x4 4 = (1, s1)"
    using in4 by (simp add: read_at_4 s1)
  have r2: "stm32l4r5_rng_read REGS_SIZE s1 0x8 4 = (src 0, s3)"
    using assms by (simp add: read_at_8 s1 s3_def qemu_guest_getrandom_def)
  have r3: "stm32l4r5_rng_read REGS_SIZE s3 0x8 4 = (src 1, s4)"
    using assms by (simp add: read_at_8 s1 s3 s4_def qemu_guest_getrandom_def)
  have r4: "stm32l4r5_rng_read REGS_SIZE s5 0x4 4 = (0, s5)"
    using in4 by (simp add: read_at_4 s5)
  have r5: "stm32l4r5_rng_read REGS_SIZE s5 0x8 4 = (0, qemu_log_mask Read_no_valid_data s5)"
    using assms by (simp add: read_at_8 s5)
  show ?thesis
    unfolding Let_def s1_def [symmetric] r1 prod.case r2 r3 s5_def [symmetric] r4 r5
    by (simp add: s3 s4 s5)
qed

theorem C7_scenario_witness:
  "(let s0 = rng_reset (\<lambda>n. if n = 0 then 0x1111 else 0x2222);
        s1 = stm32l4r5_rng_write s0 0x0 0x4 4;
        (sr1, s2) = stm32l4r5_rng_read 0xC s1 0x4 4;
        (dr1, s3) = stm32l4r5_rng_read 0xC s2 0x8 4;
        (dr2, s4) = stm32l4r5_rng_read 0xC s3 0x8 4;
        s5 = stm32l4r5_rng_write s4 0x0 0x0 4;
        (sr2, s6) = stm32l4r5_rng_read 0xC s5 0x4 4;
        (dr3, s7) = stm32l4r5_rng_read 0xC s6 0x8 4
    in sr1 = 0x1 \<and> dr1 = 0x1111 \<and> draws s3 = 1 \<and> dr2 = 0x2222 \<and> draws s4 = 2 \<and>
       sr2 = 0x0 \<and> dr3 = 0 \<and> draws s7 = 2)"
  using C7_scenario [of "0xC" "\<lambda>n. if n = 0 then 0x1111 else 0x2222"]
  by simp

text \<open>
  C8. A write at a 4-byte-aligned offset other than 0x0 changes no register, in or out of
  the window, while a write at 0x0 can. The status-clear case is taken at byte offset 1
  and the read-only-register case at byte offset 2 only; every offset other than 0, 1
  and 2 takes the default case. The bus, under the declared constraints, delivers
  aligned offsets only, so neither offset 1 nor offset 2.
\<close>

theorem C8_only_offset_0_writes:
  "(offset mod 4 = 0 \<and> offset \<noteq> 0 \<longrightarrow>
      regs (stm32l4r5_rng_write s offset val sz) = regs s) \<and>
   regs (stm32l4r5_rng_write (rng_reset src) 0x0 0x4 4) \<noteq> regs (rng_reset src) \<and>
   (offset \<noteq> 0 \<and> offset \<noteq> 1 \<longrightarrow> regs (stm32l4r5_rng_write s offset val sz) = regs s) \<and>
   bit (regs (stm32l4r5_rng_write s 1 val sz) RNG_SR) n =
     (bit (regs s RNG_SR) n \<and> (n = 5 \<longrightarrow> bit val 5) \<and> (n = 6 \<longrightarrow> bit val 6)) \<and>
   (guest_log (stm32l4r5_rng_write s offset val sz) =
      guest_log s @ [Write_read_only_register offset]) = (offset = 2) \<and>
   (offset \<noteq> 0 \<and> offset \<noteq> 1 \<and> offset \<noteq> 2 \<longrightarrow>
      stm32l4r5_rng_write s offset val sz = qemu_log_mask (Write_invalid_offset offset) s) \<and>
   (bus_delivers stm32l4r5_rng_ops offset sz \<longrightarrow> offset mod 4 = 0) \<and>
   \<not> bus_delivers stm32l4r5_rng_ops 1 sz \<and>
   \<not> bus_delivers stm32l4r5_rng_ops 2 sz"
proof (intro conjI impI)
  assume h: "offset mod 4 = 0 \<and> offset \<noteq> 0"
  show "regs (stm32l4r5_rng_write s offset val sz) = regs s"
    by (rule write_aligned_regs [OF conjunct1 [OF h] conjunct2 [OF h]])
next
  show "regs (stm32l4r5_rng_write (rng_reset src) 0x0 0x4 4) \<noteq> regs (rng_reset src)"
    by (rule write_at_0_can_change)
next
  assume h: "offset \<noteq> 0 \<and> offset \<noteq> 1"
  show "regs (stm32l4r5_rng_write s offset val sz) = regs s"
    by (rule write_elsewhere_regs [OF conjunct1 [OF h] conjunct2 [OF h]])
next
  show "bit (regs (stm32l4r5_rng_write s 1 val sz) RNG_SR) n =
     (bit (regs s RNG_SR) n \<and> (n = 5 \<longrightarrow> bit val 5) \<and> (n = 6 \<longrightarrow> bit val 6))"
    by (rule write_at_1_SR_bit)
next
  show "(guest_log (stm32l4r5_rng_write s offset val sz) =
      guest_log s @ [Write_read_only_register offset]) = (offset = 2)"
    by (rule write_log_read_only_iff)
next
  assume h: "offset \<noteq> 0 \<and> offset \<noteq> 1 \<and> offset \<noteq> 2"
  show "stm32l4r5_rng_write s offset val sz = qemu_log_mask (Write_invalid_offset offset) s"
    by (rule write_default_case [OF conjunct1 [OF h] conjunct1 [OF conjunct2 [OF h]]
          conjunct2 [OF conjunct2 [OF h]]])
next
  assume "bus_delivers stm32l4r5_rng_ops offset sz"
  then show "offset mod 4 = 0"
    by (simp only: bus_delivers_rng_iff)
next
  show "\<not> bus_delivers stm32l4r5_rng_ops 1 sz"
    by (rule bus_never_delivers_1_2)
next
  show "\<not> bus_delivers stm32l4r5_rng_ops 2 sz"
    by (rule bus_never_delivers_1_2)
qed

theorem C8_only_offset_0_writes_witness:
  "regs (stm32l4r5_rng_write ((rng_reset (\<lambda>n. 0))\<lparr>regs := (\<lambda>i. 0x60)\<rparr>) 0x8 0x0 4) =
     (\<lambda>i. 0x60) \<and>
   stm32l4r5_rng_write ((rng_reset (\<lambda>n. 0))\<lparr>regs := (\<lambda>i. 0x60)\<rparr>) 0x8 0x0 4 =
     \<lparr>regs = (\<lambda>i. 0x60), entropy = (\<lambda>n. 0), draws = 0,
      guest_log = [Write_invalid_offset 0x8]\<rparr> \<and>
   bus_delivers stm32l4r5_rng_ops 0x8 4 \<and>
   \<not> bus_delivers stm32l4r5_rng_ops 1 4"
proof -
  let ?S = "(rng_reset (\<lambda>n. 0))\<lparr>regs := (\<lambda>i. 0x60)\<rparr>"
  note inst = C8_only_offset_0_writes [where offset = "0x8" and val = "0x0" and sz = 4
      and s = ?S and n = 0 and src = "\<lambda>n. 0"]
  note rest = inst [THEN conjunct2, THEN conjunct2, THEN conjunct2, THEN conjunct2,
      THEN conjunct2]
  have pre: "(0x8 :: hwaddr) mod 4 = 0 \<and> (0x8 :: hwaddr) \<noteq> 0"
    "(0x8 :: hwaddr) \<noteq> 0 \<and> (0x8 :: hwaddr) \<noteq> 1 \<and> (0x8 :: hwaddr) \<noteq> 2"
    by simp_all
  have a: "regs (stm32l4r5_rng_write ?S 0x8 0x0 4) = regs ?S"
    by (rule mp [OF inst [THEN conjunct1] pre(1)])
  have b: "stm32l4r5_rng_write ?S 0x8 0x0 4 = qemu_log_mask (Write_invalid_offset 0x8) ?S"
    by (rule mp [OF rest [THEN conjunct1] pre(2)])
  have c: "\<not> bus_delivers stm32l4r5_rng_ops 1 4"
    by (rule rest [THEN conjunct2, THEN conjunct2, THEN conjunct1])
  have d: "bus_delivers stm32l4r5_rng_ops 0x8 4"
    by (simp add: bus_delivers_def stm32l4r5_rng_ops_def)
  from a b c d show ?thesis
    by (simp add: rng_reset_def qemu_log_mask_def)
qed

text \<open>
  C9. In every state reached from the zeroed register file by a sequence of reads and
  writes, at any offsets and with any values, the stored SR is 0 or 1; its bits 5 and 6
  are clear.
\<close>

theorem C9_SR_is_0_or_1:
  "(regs (run REGS_SIZE (rng_reset src) bs) RNG_SR = 0 \<or>
    regs (run REGS_SIZE (rng_reset src) bs) RNG_SR = 1) \<and>
   \<not> bit (regs (run REGS_SIZE (rng_reset src) bs) RNG_SR) 5 \<and>
   \<not> bit (regs (run REGS_SIZE (rng_reset src) bs) RNG_SR) 6"
proof -
  have "regs (rng_reset src) RNG_SR = 0 \<or> regs (rng_reset src) RNG_SR = 1"
    by (simp add: rng_reset_def)
  then have "regs (run REGS_SIZE (rng_reset src) bs) RNG_SR = 0 \<or>
             regs (run REGS_SIZE (rng_reset src) bs) RNG_SR = 1"
    by (rule run_SR_0_or_1)
  then show ?thesis by (auto simp add: bit_1_iff)
qed

text \<open>
  C10. The read handler leaves every register as it was, at every offset, access size
  and state. Apart from the log, all it changes is the random source's call count, by one
  for a data read inside the window with SR bit 0 set and not at all otherwise.
\<close>

theorem C10_read_keeps_registers:
  "regs (snd (stm32l4r5_rng_read REGS_SIZE s offset sz)) = regs s \<and>
   (snd (stm32l4r5_rng_read REGS_SIZE s offset sz))
     \<lparr>draws := draws s, guest_log := guest_log s\<rparr> = s \<and>
   draws (snd (stm32l4r5_rng_read REGS_SIZE s offset sz)) =
     (if offset < REGS_SIZE \<and> OFFSET_TO_REG offset = 2 \<and> bit (regs s RNG_SR) 0
      then Suc (draws s) else draws s)"
  by (simp add: stm32l4r5_rng_read_def qemu_guest_getrandom_def qemu_log_mask_def
      reg_index_defs and_1_neq_0_iff not_le [symmetric])

end
